theory Spec2Isabelle
  imports Main
begin

section \<open>Text\<close>

text \<open>
  A Python \<open>str\<close> is modelled as a HOL \<open>string\<close>, one \<open>char\<close> per character, and a
  Python \<open>bytes\<close> value as a \<open>string\<close> too, one \<open>char\<close> per byte. A \<open>char\<close> has 256
  values, so the model covers the text whose code points are below 256; every character the
  code compares with (quotes, letters, digits, the underscore, the line terminators) is
  among them.
\<close>

type_synonym str = string
type_synonym bytes = string

text \<open>\<open>str.isdigit\<close> on the code points below 256: the ASCII digits and the superscript
  digits two, three and one.\<close>

definition isdigit :: "char \<Rightarrow> bool" where
  "isdigit c = (c \<in> set ''0123456789'' \<or> c \<in> {CHR 0xB2, CHR 0xB3, CHR 0xB9})"

text \<open>\<open>str.isspace\<close> on the code points below 256.\<close>

definition isspace :: "char \<Rightarrow> bool" where
  "isspace c = (c \<in> {CHR 0x09, CHR 0x0A, CHR 0x0B, CHR 0x0C, CHR 0x0D,
                       CHR 0x1C, CHR 0x1D, CHR 0x1E, CHR 0x1F, CHR 0x20, CHR 0x85, CHR 0xA0})"

text \<open>\<open>str.lstrip()\<close> with no argument removes the leading whitespace.\<close>

definition lstrip :: "str \<Rightarrow> str" where
  "lstrip s = dropWhile isspace s"

text \<open>\<open>value.endswith(("L", "l"))\<close>.\<close>

definition endswith_L :: "str \<Rightarrow> bool" where
  "endswith_L v = (v \<noteq> [] \<and> (last v = CHR ''L'' \<or> last v = CHR ''l''))"

section \<open>Syntax trees\<close>

text \<open>
  The tree of \<open>blib2to3.pytree\<close>: a \<open>Leaf\<close> carries a token type and the token's text, a
  \<open>Node\<close> carries a grammar symbol and its children. The types below name the tokens and
  symbols that \<open>black/__init__.py\<close> mentions; the others are \<open>OtherToken\<close> and \<open>OtherSym\<close>.
  The parent link \<open>n.parent\<close> is not stored: the traversal hands each node its parent.
\<close>

datatype token =
  NAME | NUMBER | STRING | NEWLINE | COMMA | SLASH | COLONEQUAL | BACKQUOTE | OtherToken nat

datatype sym =
  simple_stmt | import_from | import_as_name | import_as_names
  | typedargslist | arglist | varargslist | argument | decorator
  | print_stmt | exec_stmt | tfpdef | except_clause | raise_stmt | OtherSym nat

datatype ntype = Tok token | Sym sym

datatype LN = Leaf token str | Node sym "LN list"

fun type_of :: "LN \<Rightarrow> ntype" where
  "type_of (Leaf t v) = Tok t"
| "type_of (Node s cs) = Sym s"

text \<open>\<open>n.children\<close>; a leaf has the empty tuple of the base class.\<close>

fun children :: "LN \<Rightarrow> LN list" where
  "children (Leaf t v) = []"
| "children (Node s cs) = cs"

text \<open>\<open>node.pre_order()\<close>: the node, then the pre-order of each child; every node comes
  with its parent (\<open>None\<close> at the root).\<close>

fun pre_order :: "LN option \<Rightarrow> LN \<Rightarrow> (LN option \<times> LN) list" where
  "pre_order parent (Leaf t v) = [(parent, Leaf t v)]"
| "pre_order parent (Node s cs) =
     (parent, Node s cs) # concat (map (pre_order (Some (Node s cs))) cs)"

section \<open>Features and the parts of Black this file imports\<close>

text \<open>The members of \<open>black.mode.Feature\<close> that the file names; \<open>OtherFeature\<close> stands for
  the members it does not name.\<close>

datatype Feature =
  UNICODE_LITERALS | F_STRINGS | NUMERIC_UNDERSCORES | POS_ONLY_ARGUMENTS
  | TRAILING_COMMA_IN_CALL | TRAILING_COMMA_IN_DEF | ASSIGNMENT_EXPRESSIONS
  | RELAXED_DECORATORS | PRINT_STMT | EXEC_STMT | AUTOMATIC_PARAMETER_UNPACKING
  | COMMA_STYLE_EXCEPT | COMMA_STYLE_RAISE | LONG_INT_LITERAL | OCTAL_INT_LITERAL
  | BACKQUOTE_REPR | OtherFeature nat

text \<open>\<open>black.mode.Mode\<close>, with the fields the docstring of \<open>format_str\<close> sets. \<open>'v\<close> is the
  enumeration \<open>TargetVersion\<close>.\<close>

record 'v Mode =
  target_versions :: "'v set"
  line_length :: int
  string_normalization :: bool
  is_pyi :: bool

text \<open>
  Modelled from the spec: the modules \<open>black.mode\<close>, \<open>black.nodes\<close>, \<open>black.parsing\<close>,
  \<open>black.comments\<close>, \<open>black.linegen\<close> and \<open>black.lines\<close> are not among the sources. What
  \<open>black/__init__.py\<close> imports from them is a parameter of the model, collected in one
  record: the enumeration \<open>TargetVersion\<close> (its members in order, and the member \<open>PY27\<close>),
  the table \<open>VERSION_TO_FEATURES\<close>, \<open>supports_feature\<close>, the token set \<open>STARS\<close>,
  \<open>is_simple_decorator_expression\<close>, the parser, and the stages that turn a tree into
  lines. \<open>'l\<close> is the class \<open>Line\<close> and \<open>'t\<close> the state of an \<open>EmptyLineTracker\<close>. As the
  specification has it, the parser produces a tree or fails with an error that identifies
  the offending line and column, and the stages after it never raise: they are total
  functions.
\<close>

record ('v, 'l, 't) env =
  TargetVersion :: "'v list"
  PY27 :: 'v
  VERSION_TO_FEATURES :: "'v \<Rightarrow> Feature set"
  supports_feature :: "'v set \<Rightarrow> Feature \<Rightarrow> bool"
  STARS :: "token set"
  is_simple_decorator_expression :: "LN \<Rightarrow> bool"
  lib2to3_parse :: "str \<Rightarrow> 'v set \<Rightarrow> (nat \<times> nat) + LN"
  normalize_fmt_off :: "LN \<Rightarrow> LN"
  LineGenerator_visit :: "'v Mode \<Rightarrow> bool \<Rightarrow> LN \<Rightarrow> 'l list"
  EmptyLineTracker :: "bool \<Rightarrow> 't"
  maybe_empty_lines :: "'t \<Rightarrow> 'l \<Rightarrow> (int \<times> int) \<times> 't"
  Line :: "'v Mode \<Rightarrow> 'l"
  transform_line :: "'l \<Rightarrow> 'v Mode \<Rightarrow> Feature set \<Rightarrow> 'l list"
  str_of_Line :: "'l \<Rightarrow> str"

section \<open>get_features_used\<close>

text \<open>
  The body of the loop of \<open>get_features_used\<close> at one node \<open>n\<close> with parent \<open>parent\<close>: the
  chain of \<open>if\<close>/\<open>elif\<close> on \<open>n.type\<close>, in the order of the source. The type of a leaf is a
  token and the type of an interior node is a symbol, so the chain falls into the tests on
  tokens, which only a leaf can pass, and the tests on symbols, which only an interior node
  can pass.
\<close>

fun visit :: "('v, 'l, 't) env \<Rightarrow> LN option \<Rightarrow> LN \<Rightarrow> Feature set \<Rightarrow> Feature set" where
  "visit env parent (Leaf t v) features =
     (if t = STRING then
        (let value_head = take 2 v in
         if value_head \<in> {[CHR ''f'', CHR 0x22], [CHR ''F'', CHR 0x22],
                           [CHR ''f'', CHR 0x27], [CHR ''F'', CHR 0x27],
                           ''rf'', ''fr'', ''RF'', ''FR''}
         then insert F_STRINGS features else features)
      else if t = NUMBER then
        (if CHR ''_'' \<in> set v then insert NUMERIC_UNDERSCORES features
         else if endswith_L v then insert LONG_INT_LITERAL features
         else if length v \<ge> 2 \<and> v ! 0 = CHR ''0'' \<and> isdigit (v ! 1) then
           (if \<not> list_all (\<lambda>char. char = CHR ''0'') v
            then insert OCTAL_INT_LITERAL features else features)
         else features)
      else if t = SLASH then
        (if (case parent of None \<Rightarrow> False
             | Some p \<Rightarrow> type_of p \<in> {Sym typedargslist, Sym arglist, Sym varargslist})
         then insert POS_ONLY_ARGUMENTS features else features)
      else if t = COLONEQUAL then insert ASSIGNMENT_EXPRESSIONS features
      else if t = BACKQUOTE then insert BACKQUOTE_REPR features
      else features)"
| "visit env parent (Node s cs) features =
     (if s = decorator then
        (if length cs > 1 \<and> \<not> is_simple_decorator_expression env (cs ! 1)
         then insert RELAXED_DECORATORS features else features)
      else if s \<in> {typedargslist, arglist} \<and> cs \<noteq> [] \<and> type_of (last cs) = Tok COMMA then
        (let feature = (if s = typedargslist then TRAILING_COMMA_IN_DEF
                        else TRAILING_COMMA_IN_CALL) in
         if list_ex (\<lambda>ch.
              (case ch of Leaf ct cv \<Rightarrow> ct \<in> STARS env | Node c_s ccs \<Rightarrow> False)
              \<or> (type_of ch = Sym argument
                  \<and> list_ex (\<lambda>argch. case argch of Leaf at av \<Rightarrow> at \<in> STARS env
                                       | Node a_s acs \<Rightarrow> False) (children ch))) cs
         then insert feature features else features)
      else if s = print_stmt then insert PRINT_STMT features
      else if s = exec_stmt then insert EXEC_STMT features
      else if s = tfpdef then insert AUTOMATIC_PARAMETER_UNPACKING features
      else if s = except_clause then
        (if length cs \<ge> 4 \<and> type_of (cs ! (length cs - 2)) = Tok COMMA
         then insert COMMA_STYLE_EXCEPT features else features)
      else if s = raise_stmt then
        (if length cs \<ge> 4 \<and> type_of (cs ! (length cs - 2)) = Tok COMMA
         then insert COMMA_STYLE_RAISE features else features)
      else features)"

text \<open>\<open>get_features_used(node)\<close>: the loop over \<open>node.pre_order()\<close>, started with the empty
  set. \<open>node\<close> is a root, as the tree that \<open>format_str\<close> passes is.\<close>

definition get_features_used :: "('v, 'l, 't) env \<Rightarrow> LN \<Rightarrow> Feature set" where
  "get_features_used env node =
     foldl (\<lambda>features (parent, n). visit env parent n features) {} (pre_order None node)"

section \<open>detect_target_versions\<close>

text \<open>\<open>detect_target_versions(node)\<close>: the comprehension over the members of
  \<open>TargetVersion\<close>.\<close>

definition detect_target_versions :: "('v, 'l, 't) env \<Rightarrow> LN \<Rightarrow> 'v set" where
  "detect_target_versions env node =
     (let features = get_features_used env node in
      set (filter (\<lambda>version. features \<subseteq> VERSION_TO_FEATURES env version)
             (TargetVersion env)))"

section \<open>get_future_imports\<close>

text \<open>The exceptions the model keeps: the error of the parser with its line and column, a
  failed \<open>assert\<close> with its message, an index out of range, and the two errors of decoding
  (the \<open>SyntaxError\<close> of \<open>tokenize.detect_encoding\<close> and \<open>UnicodeDecodeError\<close>).\<close>

datatype error =
  ParseError nat nat | AssertionError str | IndexError | EncodingError | UnicodeDecodeError

definition invalid_imports :: error where
  "invalid_imports = AssertionError ''Invalid syntax parsing imports''"

text \<open>
  The inner generator \<open>get_imports_from_children\<close>; the caller builds a set from it, so the
  model returns the names it yields, or the first exception it raises.
\<close>

fun get_imports_from_children :: "LN list \<Rightarrow> error + str list" where
  "get_imports_from_children [] = Inr []"
| "get_imports_from_children (Leaf t v # rest) =
     (case get_imports_from_children rest of
        Inl e \<Rightarrow> Inl e
      | Inr names \<Rightarrow> Inr (if t = NAME then v # names else names))"
| "get_imports_from_children (Node s cs # rest) =
     (if s = import_as_name then
        (case cs of
           [] \<Rightarrow> Inl IndexError
         | Node o_s ocs # _ \<Rightarrow> Inl invalid_imports
         | Leaf ot ov # _ \<Rightarrow>
             if ot \<noteq> NAME then Inl invalid_imports
             else (case get_imports_from_children rest of
                     Inl e \<Rightarrow> Inl e
                   | Inr names \<Rightarrow> Inr (ov # names)))
      else if s = import_as_names then
        (case get_imports_from_children cs of
           Inl e \<Rightarrow> Inl e
         | Inr inner \<Rightarrow>
             (case get_imports_from_children rest of
                Inl e \<Rightarrow> Inl e
              | Inr names \<Rightarrow> Inr (inner @ names)))
      else Inl invalid_imports)"

text \<open>
  The loop \<open>for child in node.children\<close> of \<open>get_future_imports\<close>, with the set \<open>imports\<close>
  collected so far: \<open>break\<close> returns it, \<open>continue\<close> goes on with the rest.
\<close>

fun future_imports_loop :: "LN list \<Rightarrow> str set \<Rightarrow> error + str set" where
  "future_imports_loop [] imports = Inr imports"
| "future_imports_loop (child # rest) imports =
     (if type_of child \<noteq> Sym simple_stmt then Inr imports
      else
        (case children child of
           [] \<Rightarrow> Inl IndexError
         | Leaf ft fv # _ \<Rightarrow>
             if length (children child) = 2 \<and> ft = STRING
                \<and> type_of (children child ! 1) = Tok NEWLINE
             then future_imports_loop rest imports
             else Inr imports
         | Node fs fcs # _ \<Rightarrow>
             if fs = import_from then
               (if length fcs < 2 then Inl IndexError
                else
                  (case fcs ! 1 of
                     Node m_s mcs \<Rightarrow> Inr imports
                   | Leaf mt module_name \<Rightarrow>
                       if module_name \<noteq> ''__future__'' then Inr imports
                       else
                         (case get_imports_from_children (drop 3 fcs) of
                            Inl e \<Rightarrow> Inl e
                          | Inr names \<Rightarrow> future_imports_loop rest (imports \<union> set names))))
             else Inr imports))"

definition get_future_imports :: "LN \<Rightarrow> error + str set" where
  "get_future_imports node = future_imports_loop (children node) {}"

section \<open>format_str\<close>

text \<open>\<open>s * k\<close> for a string and an integer: empty when \<open>k\<close> is not positive.\<close>

definition times :: "str \<Rightarrow> int \<Rightarrow> str" where
  "times s k = concat (replicate (nat k) s)"

definition DEPRECATION :: str where
  "DEPRECATION = ''DEPRECATION: Python 2 support will be removed in the first stable release expected in January 2022.''"

text \<open>The local variable \<open>versions\<close> of \<open>format_str\<close> (lines 62 to 65).\<close>

definition versions :: "('v, 'l, 't) env \<Rightarrow> 'v Mode \<Rightarrow> LN \<Rightarrow> 'v set" where
  "versions env mode src_node =
     (if target_versions mode \<noteq> {} then target_versions mode
      else detect_target_versions env src_node)"

text \<open>
  The loop \<open>for current_line in lines.visit(src_node)\<close> (lines 85 to 90), with the state of
  the tracker \<open>elt\<close>, the variable \<open>after\<close> and the list \<open>dst_contents\<close> (here \<open>dst\<close>).
\<close>

fun format_lines ::
  "('v, 'l, 't) env \<Rightarrow> 'v Mode \<Rightarrow> Feature set \<Rightarrow> 'l list \<Rightarrow> 't \<Rightarrow> int \<Rightarrow> str list \<Rightarrow> str list"
where
  "format_lines env mode features [] elt after dst = dst"
| "format_lines env mode features (current_line # rest) elt after dst =
     (let empty_line = Line env mode;
          dst1 = dst @ [times (str_of_Line env empty_line) after];
          r = maybe_empty_lines env elt current_line;
          before = fst (fst r);
          dst2 = dst1 @ [times (str_of_Line env empty_line) before];
          dst3 = dst2 @ map (str_of_Line env) (transform_line env current_line mode features)
      in format_lines env mode features rest (snd r) (snd (fst r)) dst3)"

text \<open>
  The other local variables of \<open>format_str\<close>: the argument \<open>remove_u_prefix\<close> of the line
  generator (line 75), the set \<open>split_line_features\<close> (lines 80 to 84), and the list
  \<open>dst_contents\<close> when the loop has ended.
\<close>

definition remove_u_prefix :: "('v, 'l, 't) env \<Rightarrow> 'v Mode \<Rightarrow> LN \<Rightarrow> str set \<Rightarrow> bool" where
  "remove_u_prefix env mode src_node future_imports =
     (''unicode_literals'' \<in> future_imports
      \<or> supports_feature env (versions env mode src_node) UNICODE_LITERALS)"

definition split_line_features :: "('v, 'l, 't) env \<Rightarrow> 'v Mode \<Rightarrow> LN \<Rightarrow> Feature set" where
  "split_line_features env mode src_node =
     Set.filter (supports_feature env (versions env mode src_node))
       {TRAILING_COMMA_IN_CALL, TRAILING_COMMA_IN_DEF}"

definition dst_contents :: "('v, 'l, 't) env \<Rightarrow> 'v Mode \<Rightarrow> LN \<Rightarrow> str set \<Rightarrow> str list" where
  "dst_contents env mode src_node future_imports =
     format_lines env mode (split_line_features env mode src_node)
       (LineGenerator_visit env mode (remove_u_prefix env mode src_node future_imports)
          (normalize_fmt_off env src_node))
       (EmptyLineTracker env (is_pyi mode)) 0 []"

text \<open>
  \<open>format_str(src_contents, mode=mode)\<close>. The result is the list of the messages handed to
  \<open>show_error_panel\<close>, and either the exception raised or the text returned. An exception
  of the parser or of \<open>get_future_imports\<close> ends the call before anything is shown.
\<close>

definition format_str ::
  "('v, 'l, 't) env \<Rightarrow> str \<Rightarrow> 'v Mode \<Rightarrow> str list \<times> (error + str)"
where
  "format_str env src_contents mode =
     (case lib2to3_parse env (lstrip src_contents) (target_versions mode) of
        Inl (lineno, column) \<Rightarrow> ([], Inl (ParseError lineno column))
      | Inr src_node \<Rightarrow>
          (case get_future_imports src_node of
             Inl e \<Rightarrow> ([], Inl e)
           | Inr future_imports \<Rightarrow>
               ((if PY27 env \<in> target_versions mode
                    \<or> versions env mode src_node = {PY27 env}
                 then [DEPRECATION] else []),
                Inr (concat (dst_contents env mode src_node future_imports)))))"

section \<open>decode_bytes\<close>

text \<open>
  \<open>decode_bytes\<close> calls the standard library: \<open>io.BytesIO.readline\<close>,
  \<open>tokenize.detect_encoding\<close> and \<open>io.TextIOWrapper.read\<close>. \<open>readline\<close> returns the bytes up
  to and including the first line feed (all of them when there is none) and the bytes left.
\<close>

definition CR :: char where "CR = CHR 0x0D"
definition LF :: char where "LF = CHR 0x0A"

definition readline :: "bytes \<Rightarrow> bytes \<times> bytes" where
  "readline bs =
     (case dropWhile (\<lambda>b. b \<noteq> LF) bs of
        [] \<Rightarrow> (bs, [])
      | b # rest \<Rightarrow> (takeWhile (\<lambda>b. b \<noteq> LF) bs @ [LF], rest))"

text \<open>
  What the standard library decides by regular expressions and codecs is a parameter:
  \<open>find_cookie bom_found line\<close> is the encoding that a coding cookie on the line declares,
  if any, or the \<open>SyntaxError\<close> it raises; \<open>blank_re_match\<close> tells a blank or comment line;
  \<open>decode encoding bs\<close> is the text of the bytes in the encoding, or the error of the
  codec.
\<close>

record stdlib =
  find_cookie :: "bool \<Rightarrow> bytes \<Rightarrow> error + str option"
  blank_re_match :: "bytes \<Rightarrow> bool"
  decode :: "str \<Rightarrow> bytes \<Rightarrow> error + str"

definition BOM_UTF8 :: bytes where
  "BOM_UTF8 = [CHR 0xEF, CHR 0xBB, CHR 0xBF]"

text \<open>\<open>tokenize.detect_encoding(srcbuf.readline)\<close> on a buffer that holds \<open>src\<close>: it reads
  at most two lines and returns the encoding and the lines it has read, the first one
  without the byte order mark.\<close>

definition detect_encoding :: "stdlib \<Rightarrow> bytes \<Rightarrow> error + (str \<times> bytes list)" where
  "detect_encoding lib src =
     (let r1 = readline src;
          bom_found = (take 3 (fst r1) = BOM_UTF8);
          first = (if bom_found then drop 3 (fst r1) else fst r1);
          default = (if bom_found then ''utf-8-sig'' else ''utf-8'')
      in if first = [] then Inr (default, [])
         else
           (case find_cookie lib bom_found first of
              Inl e \<Rightarrow> Inl e
            | Inr (Some encoding) \<Rightarrow> Inr (encoding, [first])
            | Inr None \<Rightarrow>
                if \<not> blank_re_match lib first then Inr (default, [first])
                else
                  (let second = fst (readline (snd r1)) in
                   if second = [] then Inr (default, [first])
                   else
                     (case find_cookie lib bom_found second of
                        Inl e \<Rightarrow> Inl e
                      | Inr (Some encoding) \<Rightarrow> Inr (encoding, [first, second])
                      | Inr None \<Rightarrow> Inr (default, [first, second])))))"

text \<open>The newline translation of a text stream opened with universal newlines: \<open>\r\n\<close> and
  a lone \<open>\r\<close> become \<open>\n\<close>.\<close>

fun universal_newlines :: "str \<Rightarrow> str" where
  "universal_newlines [] = []"
| "universal_newlines [c] = (if c = CR then [LF] else [c])"
| "universal_newlines (c # d # rest) =
     (if c = CR \<and> d = LF then LF # universal_newlines rest
      else if c = CR then LF # universal_newlines (d # rest)
      else c # universal_newlines (d # rest))"

text \<open>\<open>decode_bytes(src)\<close>: the decoded contents, the encoding and the newline.\<close>

definition decode_bytes :: "stdlib \<Rightarrow> bytes \<Rightarrow> error + (str \<times> str \<times> str)" where
  "decode_bytes lib src =
     (case detect_encoding lib src of
        Inl e \<Rightarrow> Inl e
      | Inr (encoding, lines) \<Rightarrow>
          if lines = [] then Inr ([], encoding, [LF])
          else
            (let newline = (if [CR, LF] = drop (length (lines ! 0) - 2) (lines ! 0)
                            then [CR, LF] else [LF])
             in case decode lib encoding src of
                  Inl e \<Rightarrow> Inl e
                | Inr text \<Rightarrow> Inr (universal_newlines text, encoding, newline)))"

section \<open>The notions of the specification\<close>

text \<open>
  A legacy octal literal: a zero followed by digits, as Python 2 writes an octal integer,
  that is not a string of zeros only (which every Python version reads as zero).
\<close>

definition legacy_octal_literal :: "str \<Rightarrow> bool" where
  "legacy_octal_literal v =
     (length v \<ge> 2 \<and> hd v = CHR ''0'' \<and> list_all (\<lambda>c. c \<in> set ''0123456789'') v
      \<and> \<not> list_all (\<lambda>c. c = CHR ''0'') v)"

text \<open>A legacy-only feature: \<open>PY27\<close> supports it and no other member of \<open>TargetVersion\<close>
  does.\<close>

definition legacy_only :: "('v, 'l, 't) env \<Rightarrow> Feature \<Rightarrow> bool" where
  "legacy_only env f =
     (f \<in> VERSION_TO_FEATURES env (PY27 env)
      \<and> list_all (\<lambda>v. v = PY27 env \<or> f \<notin> VERSION_TO_FEATURES env v) (TargetVersion env))"

text \<open>
  A condition on the table: some version other than \<open>PY27\<close> supports every feature of
  \<open>PY27\<close> that is not legacy-only.
\<close>

definition shared_features_covered :: "('v, 'l, 't) env \<Rightarrow> bool" where
  "shared_features_covered env =
     list_ex (\<lambda>v. v \<noteq> PY27 env
                 \<and> (\<forall>f \<in> VERSION_TO_FEATURES env (PY27 env).
                       legacy_only env f \<or> f \<in> VERSION_TO_FEATURES env v))
       (TargetVersion env)"

















text \<open>The first line of a byte string ends with a carriage return and a line feed.\<close>

definition first_line_ends_crlf :: "bytes \<Rightarrow> bool" where
  "first_line_ends_crlf src =
     (let line = fst (readline src) in drop (length line - 2) line = [CR, LF])"

section \<open>A sample instance of the parameters\<close>

text \<open>
  The theorems below hold for every value of the parameters. To run them on concrete
  inputs, this section fixes one instance: three versions with their features, a parser
  that knows the trees of a few sources, and stages that print every statement of a tree
  on a line of its own. The parser reads a print statement only with the grammar of
  Python 2, which it uses when nothing is pinned or only \<open>V27\<close> is; it rejects every text it
  does not know.
\<close>

datatype sample_version = V27 | V36 | V38

definition sample_features :: "sample_version \<Rightarrow> Feature set" where
  "sample_features v =
     (case v of
        V27 \<Rightarrow> {PRINT_STMT, EXEC_STMT, AUTOMATIC_PARAMETER_UNPACKING, COMMA_STYLE_EXCEPT,
                COMMA_STYLE_RAISE, LONG_INT_LITERAL, OCTAL_INT_LITERAL, BACKQUOTE_REPR}
      | V36 \<Rightarrow> {UNICODE_LITERALS, F_STRINGS, NUMERIC_UNDERSCORES, TRAILING_COMMA_IN_CALL,
                TRAILING_COMMA_IN_DEF}
      | V38 \<Rightarrow> {UNICODE_LITERALS, F_STRINGS, NUMERIC_UNDERSCORES, TRAILING_COMMA_IN_CALL,
                TRAILING_COMMA_IN_DEF, ASSIGNMENT_EXPRESSIONS, POS_ONLY_ARGUMENTS})"

text \<open>The tree of a module: its lines under a root, closed by the end marker.\<close>

definition module :: "LN list \<Rightarrow> LN" where
  "module stmts = Node (OtherSym 0) (stmts @ [Leaf (OtherToken 0) []])"

definition print_stmt_tree :: "str \<Rightarrow> LN" where
  "print_stmt_tree number =
     module [Node simple_stmt [Node print_stmt [Leaf NAME ''print'', Leaf NUMBER number],
                               Leaf NEWLINE [LF]]]"

text \<open>An assignment \<open>x = number\<close>: an expression statement (here \<open>OtherSym 1\<close>) of a name,
  the equals sign (here \<open>OtherToken 22\<close>) and a number.\<close>

definition assign_stmt :: "str \<Rightarrow> LN" where
  "assign_stmt number =
     Node (OtherSym 1) [Leaf NAME ''x'', Leaf (OtherToken 22) ''='', Leaf NUMBER number]"

definition assign_tree :: "str \<Rightarrow> LN" where
  "assign_tree number = module [Node simple_stmt [assign_stmt number, Leaf NEWLINE [LF]]]"

definition pass_stmt :: LN where
  "pass_stmt = Node simple_stmt [Leaf NAME ''pass'', Leaf NEWLINE [LF]]"






text \<open>The sources the parser knows: the text, whether it needs the grammar of Python 2,
  and the tree.\<close>

definition sample_sources :: "(str \<times> bool \<times> LN) list" where
  "sample_sources =
     [(''print 10_000'' @ [LF], True, print_stmt_tree ''10_000''),
      (''print 0123'' @ [LF], True, print_stmt_tree ''0123''),
      (''x = 0123'' @ [LF], False, assign_tree ''0123''),
      (''pass'' @ [LF], False, module [pass_stmt])]"

definition sample_parse :: "str \<Rightarrow> sample_version set \<Rightarrow> (nat \<times> nat) + LN" where
  "sample_parse src vs =
     (case map_of sample_sources src of
        None \<Rightarrow> Inl (1, 0)
      | Some (python2, tree) \<Rightarrow>
          if python2 \<and> vs \<noteq> {} \<and> vs \<noteq> {V27} then Inl (1, 6) else Inr tree)"

fun words_of :: "LN \<Rightarrow> str list" where
  "words_of (Leaf t v) = (if t = NEWLINE then [] else [v])"
| "words_of (Node s cs) = concat (map words_of cs)"

fun unwords :: "str list \<Rightarrow> str" where
  "unwords [] = []"
| "unwords [w] = w"
| "unwords (w # ws) = w @ '' '' @ unwords ws"

definition sample_env :: "(sample_version, str, unit) env" where
  "sample_env =
     \<lparr> TargetVersion = [V27, V36, V38],
       PY27 = V27,
       VERSION_TO_FEATURES = sample_features,
       supports_feature = (\<lambda>vs feature. \<forall>v \<in> vs. feature \<in> sample_features v),
       STARS = {OtherToken 16, OtherToken 36},
       is_simple_decorator_expression = (\<lambda>n. True),
       lib2to3_parse = sample_parse,
       normalize_fmt_off = (\<lambda>n. n),
       LineGenerator_visit = (\<lambda>mode remove_u n.
          map (\<lambda>stmt. unwords (words_of stmt) @ [LF]) (butlast (children n))),
       EmptyLineTracker = (\<lambda>is_pyi. ()),
       maybe_empty_lines = (\<lambda>elt line. ((0, 0), ())),
       Line = (\<lambda>mode. [LF]),
       transform_line = (\<lambda>line mode features. [line]),
       str_of_Line = (\<lambda>line. line) \<rparr>"

definition sample_mode :: "sample_version Mode" where
  "sample_mode = \<lparr> target_versions = {}, line_length = 88, string_normalization = True,
                    is_pyi = False \<rparr>"

text \<open>A sample of the standard library: no line declares an encoding, no line is blank,
  and the codec accepts the bytes below 128 and maps each to its character.\<close>

definition sample_stdlib :: stdlib where
  "sample_stdlib =
     \<lparr> find_cookie = (\<lambda>bom_found line. Inr None),
       blank_re_match = (\<lambda>line. False),
       decode = (\<lambda>encoding bs. if list_all (\<lambda>b. of_char b < (128 :: nat)) bs then Inr bs
                                else Inl UnicodeDecodeError) \<rparr>"

section \<open>Feature detection\<close>

text \<open>The loop body only adds to the set, and what it adds does not depend on the set:
  a feature is in the result exactly when some node of the traversal adds it.\<close>

lemma visit_union: "visit env parent n features = features \<union> visit env parent n {}"
proof (cases n)
  case (Leaf t v)
  show ?thesis
    unfolding Leaf visit.simps Let_def
    by (simp only: if_distrib [of "\<lambda>X. features \<union> X"] Un_insert_right Un_empty_right
          cong: if_cong)
next
  case (Node s cs)
  show ?thesis
    unfolding Node visit.simps Let_def
    by (simp only: if_distrib [of "\<lambda>X. features \<union> X"] Un_insert_right Un_empty_right
          cong: if_cong)
qed

lemma foldl_visit_mem:
  "f \<in> foldl (\<lambda>features (parent, n). visit env parent n features) A xs \<longleftrightarrow>
     f \<in> A \<or> (\<exists>(parent, n) \<in> set xs. f \<in> visit env parent n {})"
proof (induction xs arbitrary: A)
  case Nil
  then show ?case by simp
next
  case (Cons x xs)
  obtain p n where x: "x = (p, n)" by (cases x)
  have "f \<in> visit env p n A \<longleftrightarrow> f \<in> A \<or> f \<in> visit env p n {}"
    using visit_union [of env p n A] by blast
  then show ?case
    using Cons.IH [of "visit env p n A"] unfolding x by (simp del: visit.simps)
qed

lemma get_features_used_mem:
  "f \<in> get_features_used env node \<longleftrightarrow>
     (\<exists>(parent, n) \<in> set (pre_order None node). f \<in> visit env parent n {})"
  unfolding get_features_used_def by (subst foldl_visit_mem) simp

lemma visit_NUMBER:
  "visit env parent (Leaf NUMBER v) {} =
     (if CHR ''_'' \<in> set v then {NUMERIC_UNDERSCORES}
      else if endswith_L v then {LONG_INT_LITERAL}
      else if length v \<ge> 2 \<and> v ! 0 = CHR ''0'' \<and> isdigit (v ! 1)
              \<and> \<not> list_all (\<lambda>char. char = CHR ''0'') v then {OCTAL_INT_LITERAL}
      else {})"
  by simp

lemma octal_only_from_NUMBER:
  "OCTAL_INT_LITERAL \<in> visit env parent n {} \<Longrightarrow>
     \<exists>v. n = Leaf NUMBER v \<and> \<not> list_all (\<lambda>char. char = CHR ''0'') v"
proof (cases n)
  case (Leaf t v)
  assume "OCTAL_INT_LITERAL \<in> visit env parent n {}"
  then show ?thesis unfolding Leaf visit.simps Let_def
    by (simp split: if_splits)
next
  case (Node s cs)
  assume "OCTAL_INT_LITERAL \<in> visit env parent n {}"
  then show ?thesis unfolding Node visit.simps Let_def
    by (simp split: if_splits)
qed

lemma legacy_octal_visit:
  assumes "legacy_octal_literal v"
  shows "OCTAL_INT_LITERAL \<in> visit env parent (Leaf NUMBER v) {}"
proof -
  from assms have len: "length v \<ge> 2" and h: "hd v = CHR ''0''"
    and dig: "\<And>c. c \<in> set v \<Longrightarrow> c \<in> set ''0123456789''"
    and nz: "\<not> list_all (\<lambda>c. c = CHR ''0'') v"
    by (simp_all add: legacy_octal_literal_def list_all_iff)
  from len have ne: "v \<noteq> []" by auto
  have "CHR ''_'' \<notin> set ''0123456789''" by simp
  then have u: "CHR ''_'' \<notin> set v" using dig by blast
  have "CHR ''L'' \<notin> set ''0123456789''" and "CHR ''l'' \<notin> set ''0123456789''" by simp_all
  moreover have "last v \<in> set v" using ne by simp
  ultimately have "last v \<noteq> CHR ''L''" and "last v \<noteq> CHR ''l''" using dig by metis+
  then have l: "\<not> endswith_L v" by (simp add: endswith_L_def)
  have v0: "v ! 0 = CHR ''0''" using h ne by (simp add: hd_conv_nth)
  have "v ! 1 \<in> set v" using len by (intro nth_mem) simp
  then have d1: "isdigit (v ! 1)" using dig unfolding isdigit_def by blast
  show ?thesis unfolding visit_NUMBER using len u l v0 d1 nz by simp
qed

text \<open>
  Claim C4. In every tree, a \<open>NUMBER\<close> token whose text contains an underscore (such as
  \<open>10_000\<close>) puts \<open>NUMERIC_UNDERSCORES\<close> into the result of \<open>get_features_used\<close>, and
  a \<open>NUMBER\<close> token written as a legacy octal literal, a zero followed by digits that are
  not all zeros (such as \<open>0123\<close>), puts \<open>OCTAL_INT_LITERAL\<close> into it.
\<close>

theorem numeric_literal_features:
  "((parent, Leaf NUMBER v) \<in> set (pre_order None node) \<and> CHR ''_'' \<in> set v
      \<longrightarrow> NUMERIC_UNDERSCORES \<in> get_features_used env node)
   \<and> ((parent, Leaf NUMBER v) \<in> set (pre_order None node) \<and> legacy_octal_literal v
      \<longrightarrow> OCTAL_INT_LITERAL \<in> get_features_used env node)"
proof (intro conjI impI)
  assume a: "(parent, Leaf NUMBER v) \<in> set (pre_order None node) \<and> CHR ''_'' \<in> set v"
  then have "NUMERIC_UNDERSCORES \<in> visit env parent (Leaf NUMBER v) {}"
    unfolding visit_NUMBER by simp
  with a show "NUMERIC_UNDERSCORES \<in> get_features_used env node"
    unfolding get_features_used_mem by blast
next
  assume a: "(parent, Leaf NUMBER v) \<in> set (pre_order None node) \<and> legacy_octal_literal v"
  then have "OCTAL_INT_LITERAL \<in> visit env parent (Leaf NUMBER v) {}"
    by (simp only: legacy_octal_visit)
  with a show "OCTAL_INT_LITERAL \<in> get_features_used env node"
    unfolding get_features_used_mem by blast
qed

text \<open>The definitions that evaluate the sample instance.\<close>

lemmas sample_simps = sample_env_def sample_parse_def sample_mode_def sample_sources_def
  print_stmt_tree_def assign_tree_def assign_stmt_def
  module_def sample_features_def LF_def lstrip_def isspace_def get_features_used_def
  endswith_L_def isdigit_def

theorem numeric_literal_features_witness:
  "(Some (Node print_stmt [Leaf NAME ''print'', Leaf NUMBER ''10_000'']), Leaf NUMBER ''10_000'')
      \<in> set (pre_order None (print_stmt_tree ''10_000''))
   \<and> CHR ''_'' \<in> set ''10_000''
   \<and> NUMERIC_UNDERSCORES \<in> get_features_used sample_env (print_stmt_tree ''10_000'')
   \<and> (Some (Node print_stmt [Leaf NAME ''print'', Leaf NUMBER ''0123'']), Leaf NUMBER ''0123'')
      \<in> set (pre_order None (print_stmt_tree ''0123''))
   \<and> legacy_octal_literal ''0123''
   \<and> OCTAL_INT_LITERAL \<in> get_features_used sample_env (print_stmt_tree ''0123'')"
proof -
  have 1: "(Some (Node print_stmt [Leaf NAME ''print'', Leaf NUMBER ''10_000'']),
            Leaf NUMBER ''10_000'') \<in> set (pre_order None (print_stmt_tree ''10_000''))"
    by (simp add: print_stmt_tree_def module_def)
  have 2: "CHR ''_'' \<in> set ''10_000''" by simp
  have 3: "(Some (Node print_stmt [Leaf NAME ''print'', Leaf NUMBER ''0123'']),
            Leaf NUMBER ''0123'') \<in> set (pre_order None (print_stmt_tree ''0123''))"
    by (simp add: print_stmt_tree_def module_def)
  have 4: "legacy_octal_literal ''0123''" by (simp add: legacy_octal_literal_def)
  from 1 2 3 4
    numeric_literal_features [of "Some (Node print_stmt [Leaf NAME ''print'', Leaf NUMBER ''10_000''])"
      "''10_000''" "print_stmt_tree ''10_000''" sample_env]
    numeric_literal_features [of "Some (Node print_stmt [Leaf NAME ''print'', Leaf NUMBER ''0123''])"
      "''0123''" "print_stmt_tree ''0123''" sample_env]
  show ?thesis by blast
qed

text \<open>
  Claim C10. A \<open>NUMBER\<close> token made of zeros only (such as \<open>0000\<close>) leaves the feature set
  as it is, and \<open>OCTAL_INT_LITERAL\<close> is in the result of \<open>get_features_used\<close> only if the
  tree has a \<open>NUMBER\<close> token that is not made of zeros only.
\<close>

theorem all_zeros_not_octal:
  "(list_all (\<lambda>char. char = CHR ''0'') v
      \<longrightarrow> visit env parent (Leaf NUMBER v) features = features)
   \<and> (OCTAL_INT_LITERAL \<in> get_features_used env node
      \<longrightarrow> (\<exists>p w. (p, Leaf NUMBER w) \<in> set (pre_order None node)
                 \<and> \<not> list_all (\<lambda>char. char = CHR ''0'') w))"
proof (intro conjI impI)
  assume z: "list_all (\<lambda>char. char = CHR ''0'') v"
  then have all0: "\<And>c. c \<in> set v \<Longrightarrow> c = CHR ''0''" by (simp add: list_all_iff)
  have u: "CHR ''_'' \<notin> set v" using all0 by fastforce
  have l: "\<not> endswith_L v"
  proof
    assume "endswith_L v"
    then have "v \<noteq> []" and "last v = CHR ''L'' \<or> last v = CHR ''l''"
      by (simp_all add: endswith_L_def)
    moreover from this have "last v = CHR ''0''" using all0 [of "last v"] by simp
    ultimately show False by auto
  qed
  have "visit env parent (Leaf NUMBER v) {} = {}"
    unfolding visit_NUMBER using u l z by simp
  then show "visit env parent (Leaf NUMBER v) features = features"
    using visit_union [of env parent "Leaf NUMBER v" features] by simp
next
  assume "OCTAL_INT_LITERAL \<in> get_features_used env node"
  then obtain p n where pn: "(p, n) \<in> set (pre_order None node)"
    and o: "OCTAL_INT_LITERAL \<in> visit env p n {}"
    unfolding get_features_used_mem by blast
  from octal_only_from_NUMBER [OF o] pn
  show "\<exists>p w. (p, Leaf NUMBER w) \<in> set (pre_order None node)
               \<and> \<not> list_all (\<lambda>char. char = CHR ''0'') w"
    by blast
qed

theorem all_zeros_not_octal_witness:
  "list_all (\<lambda>char. char = CHR ''0'') ''0000''
   \<and> visit sample_env None (Leaf NUMBER ''0000'') {PRINT_STMT} = {PRINT_STMT}
   \<and> get_features_used sample_env (print_stmt_tree ''0000'') = {PRINT_STMT}
   \<and> OCTAL_INT_LITERAL \<in> get_features_used sample_env (print_stmt_tree ''0123'')
   \<and> (\<exists>p w. (p, Leaf NUMBER w) \<in> set (pre_order None (print_stmt_tree ''0123''))
             \<and> \<not> list_all (\<lambda>char. char = CHR ''0'') w)"
proof -
  have 1: "list_all (\<lambda>char. char = CHR ''0'') ''0000''" by simp
  have 2: "get_features_used sample_env (print_stmt_tree ''0000'') = {PRINT_STMT}"
    by (simp add: sample_simps)
  have 3: "OCTAL_INT_LITERAL \<in> get_features_used sample_env (print_stmt_tree ''0123'')"
    by (simp add: sample_simps)
  from 1 2 3
    all_zeros_not_octal [of "''0000''" sample_env None "{PRINT_STMT}" "print_stmt_tree ''0123''"]
  show ?thesis by blast
qed

section \<open>Version resolution\<close>

text \<open>
  Claim C2. When the mode pins a non-empty set of target versions, \<open>format_str\<close> uses
  that set as it is: whatever features the tree has, the call is not rejected, and the
  notice, the flag \<open>remove_u_prefix\<close> and the split features are computed from the pinned
  set alone. Otherwise \<open>format_str\<close> computes all three from the set that
  \<open>detect_target_versions\<close> returns, which is exactly the set of the members of
  \<open>TargetVersion\<close> whose entry in \<open>VERSION_TO_FEATURES\<close> is a superset of the result of
  \<open>get_features_used\<close> on the tree.
\<close>

theorem version_resolution:
  "(target_versions mode \<noteq> {} \<longrightarrow> versions env mode src_node = target_versions mode)
   \<and> (target_versions mode = {}
        \<longrightarrow> versions env mode src_node = detect_target_versions env src_node)
   \<and> detect_target_versions env src_node =
        {version \<in> set (TargetVersion env).
           get_features_used env src_node \<subseteq> VERSION_TO_FEATURES env version}
   \<and> (target_versions mode \<noteq> {}
        \<and> lib2to3_parse env (lstrip src_contents) (target_versions mode) = Inr src_node
        \<and> get_future_imports src_node = Inr future_imports
      \<longrightarrow> format_str env src_contents mode =
            ((if PY27 env \<in> target_versions mode then [DEPRECATION] else []),
             Inr (concat (format_lines env mode
                    (Set.filter (supports_feature env (target_versions mode))
                       {TRAILING_COMMA_IN_CALL, TRAILING_COMMA_IN_DEF})
                    (LineGenerator_visit env mode
                       (''unicode_literals'' \<in> future_imports
                        \<or> supports_feature env (target_versions mode) UNICODE_LITERALS)
                       (normalize_fmt_off env src_node))
                    (EmptyLineTracker env (is_pyi mode)) 0 []))))
   \<and> (target_versions mode = {}
        \<and> lib2to3_parse env (lstrip src_contents) (target_versions mode) = Inr src_node
        \<and> get_future_imports src_node = Inr future_imports
        \<and> detected = {version \<in> set (TargetVersion env).
                        get_features_used env src_node \<subseteq> VERSION_TO_FEATURES env version}
      \<longrightarrow> format_str env src_contents mode =
            ((if detected = {PY27 env} then [DEPRECATION] else []),
             Inr (concat (format_lines env mode
                    (Set.filter (supports_feature env detected)
                       {TRAILING_COMMA_IN_CALL, TRAILING_COMMA_IN_DEF})
                    (LineGenerator_visit env mode
                       (''unicode_literals'' \<in> future_imports
                        \<or> supports_feature env detected UNICODE_LITERALS)
                       (normalize_fmt_off env src_node))
                    (EmptyLineTracker env (is_pyi mode)) 0 []))))"
proof (intro conjI impI)
  show "detect_target_versions env src_node =
        {version \<in> set (TargetVersion env).
           get_features_used env src_node \<subseteq> VERSION_TO_FEATURES env version}"
    by (simp add: detect_target_versions_def Let_def)
next
  assume a: "target_versions mode \<noteq> {}
        \<and> lib2to3_parse env (lstrip src_contents) (target_versions mode) = Inr src_node
        \<and> get_future_imports src_node = Inr future_imports"
  then have v: "versions env mode src_node = target_versions mode"
    by (simp add: versions_def)
  have p: "(PY27 env \<in> target_versions mode \<or> target_versions mode = {PY27 env})
           = (PY27 env \<in> target_versions mode)" by auto
  from a have parse: "lib2to3_parse env (lstrip src_contents) (target_versions mode) = Inr src_node"
    and fi: "get_future_imports src_node = Inr future_imports" by simp_all
  show "format_str env src_contents mode =
            ((if PY27 env \<in> target_versions mode then [DEPRECATION] else []),
             Inr (concat (format_lines env mode
                    (Set.filter (supports_feature env (target_versions mode))
                       {TRAILING_COMMA_IN_CALL, TRAILING_COMMA_IN_DEF})
                    (LineGenerator_visit env mode
                       (''unicode_literals'' \<in> future_imports
                        \<or> supports_feature env (target_versions mode) UNICODE_LITERALS)
                       (normalize_fmt_off env src_node))
                    (EmptyLineTracker env (is_pyi mode)) 0 [])))"
    by (simp add: format_str_def dst_contents_def split_line_features_def
          remove_u_prefix_def parse fi v p)
next
  assume a: "target_versions mode = {}
        \<and> lib2to3_parse env (lstrip src_contents) (target_versions mode) = Inr src_node
        \<and> get_future_imports src_node = Inr future_imports
        \<and> detected = {version \<in> set (TargetVersion env).
                        get_features_used env src_node \<subseteq> VERSION_TO_FEATURES env version}"
  then have d: "detect_target_versions env src_node = detected"
    by (simp add: detect_target_versions_def Let_def)
  from a have e: "target_versions mode = {}" by blast
  have v: "versions env mode src_node = detected"
    by (simp add: versions_def e d)
  from a have "lib2to3_parse env (lstrip src_contents) (target_versions mode) = Inr src_node"
    by blast
  then have parse: "lib2to3_parse env (lstrip src_contents) {} = Inr src_node"
    unfolding e .
  from a have fi: "get_future_imports src_node = Inr future_imports" by blast
  show "format_str env src_contents mode =
            ((if detected = {PY27 env} then [DEPRECATION] else []),
             Inr (concat (format_lines env mode
                    (Set.filter (supports_feature env detected)
                       {TRAILING_COMMA_IN_CALL, TRAILING_COMMA_IN_DEF})
                    (LineGenerator_visit env mode
                       (''unicode_literals'' \<in> future_imports
                        \<or> supports_feature env detected UNICODE_LITERALS)
                       (normalize_fmt_off env src_node))
                    (EmptyLineTracker env (is_pyi mode)) 0 [])))"
    by (simp add: format_str_def dst_contents_def split_line_features_def
          remove_u_prefix_def e parse fi v)
qed (simp_all add: versions_def)

text \<open>The definitions that evaluate \<open>format_str\<close> on the sample instance.\<close>

lemmas format_simps = format_str_def versions_def detect_target_versions_def
  get_future_imports_def DEPRECATION_def times_def dst_contents_def split_line_features_def
  remove_u_prefix_def

theorem version_resolution_witness:
  "target_versions (sample_mode\<lparr>target_versions := {V38}\<rparr>) \<noteq> {}
   \<and> lib2to3_parse sample_env (lstrip (''x = 0123'' @ [LF])) {V38} = Inr (assign_tree ''0123'')
   \<and> get_future_imports (assign_tree ''0123'') = Inr {}
   \<and> get_features_used sample_env (assign_tree ''0123'') = {OCTAL_INT_LITERAL}
   \<and> versions sample_env (sample_mode\<lparr>target_versions := {V38}\<rparr>) (assign_tree ''0123'') = {V38}
   \<and> format_str sample_env (''x = 0123'' @ [LF]) (sample_mode\<lparr>target_versions := {V38}\<rparr>)
       = ([], Inr (''x = 0123'' @ [LF]))
   \<and> target_versions sample_mode = {}
   \<and> lib2to3_parse sample_env (lstrip (''print 0123'' @ [LF])) {} = Inr (print_stmt_tree ''0123'')
   \<and> get_future_imports (print_stmt_tree ''0123'') = Inr {}
   \<and> versions sample_env sample_mode (print_stmt_tree ''0123'') = {V27}
   \<and> detect_target_versions sample_env (print_stmt_tree ''0123'') = {V27}
   \<and> format_str sample_env (''print 0123'' @ [LF]) sample_mode
       = ([DEPRECATION], Inr (''print 0123'' @ [LF]))"
proof -
  let ?pinned = "sample_mode\<lparr>target_versions := {V38}\<rparr>"
  have 1: "target_versions ?pinned \<noteq> {}" by simp
  have 2: "lib2to3_parse sample_env (lstrip (''x = 0123'' @ [LF])) {V38} = Inr (assign_tree ''0123'')"
    by (simp add: sample_simps)
  have 3: "get_future_imports (assign_tree ''0123'') = Inr {}"
    by (simp add: sample_simps get_future_imports_def)
  have 4: "get_features_used sample_env (assign_tree ''0123'') = {OCTAL_INT_LITERAL}"
    by (simp add: sample_simps)
  have 5: "target_versions sample_mode = {}" by (simp add: sample_mode_def)
  have 6: "lib2to3_parse sample_env (lstrip (''print 0123'' @ [LF])) {} = Inr (print_stmt_tree ''0123'')"
    by (simp add: sample_simps)
  have 7: "get_future_imports (print_stmt_tree ''0123'') = Inr {}"
    by (simp add: sample_simps get_future_imports_def)
  have 8: "get_features_used sample_env (print_stmt_tree ''0123'') = {OCTAL_INT_LITERAL, PRINT_STMT}"
    by (simp add: sample_simps)
  have 9: "{version \<in> set (TargetVersion sample_env).
             get_features_used sample_env (print_stmt_tree ''0123'')
               \<subseteq> VERSION_TO_FEATURES sample_env version} = {V27}"
    unfolding 8 by (auto simp: sample_env_def sample_features_def)
  note pinned = version_resolution [of ?pinned sample_env "assign_tree ''0123''"
      "''x = 0123'' @ [LF]" "{}"]
  note free = version_resolution [of sample_mode sample_env "print_stmt_tree ''0123''"
      "''print 0123'' @ [LF]" "{}" "{V27}"]
  from pinned 1 have 10: "versions sample_env ?pinned (assign_tree ''0123'') = {V38}"
    by simp
  from pinned 1 2 3
  have "format_str sample_env (''x = 0123'' @ [LF]) ?pinned =
          ([], Inr (concat (format_lines sample_env ?pinned
                    (Set.filter (supports_feature sample_env {V38})
                       {TRAILING_COMMA_IN_CALL, TRAILING_COMMA_IN_DEF})
                    (LineGenerator_visit sample_env ?pinned
                       (''unicode_literals'' \<in> {}
                        \<or> supports_feature sample_env {V38} UNICODE_LITERALS)
                       (normalize_fmt_off sample_env (assign_tree ''0123'')))
                    (EmptyLineTracker sample_env (is_pyi ?pinned)) 0 [])))"
    by (simp add: sample_env_def)
  then have 11: "format_str sample_env (''x = 0123'' @ [LF]) ?pinned
       = ([], Inr (''x = 0123'' @ [LF]))"
    by (simp add: sample_simps times_def)
  from free 5 9 have 12: "detect_target_versions sample_env (print_stmt_tree ''0123'') = {V27}"
    by simp
  from free 5 12 have 13: "versions sample_env sample_mode (print_stmt_tree ''0123'') = {V27}"
    by simp
  from free 5 6 7 9
  have "format_str sample_env (''print 0123'' @ [LF]) sample_mode =
          ((if {V27} = {PY27 sample_env} then [DEPRECATION] else []),
           Inr (concat (format_lines sample_env sample_mode
                    (Set.filter (supports_feature sample_env {V27})
                       {TRAILING_COMMA_IN_CALL, TRAILING_COMMA_IN_DEF})
                    (LineGenerator_visit sample_env sample_mode
                       (''unicode_literals'' \<in> {}
                        \<or> supports_feature sample_env {V27} UNICODE_LITERALS)
                       (normalize_fmt_off sample_env (print_stmt_tree ''0123'')))
                    (EmptyLineTracker sample_env (is_pyi sample_mode)) 0 [])))"
    by simp
  then have 14: "format_str sample_env (''print 0123'' @ [LF]) sample_mode
       = ([DEPRECATION], Inr (''print 0123'' @ [LF]))"
    by (simp add: sample_simps times_def)
  show ?thesis by (intro conjI) (rule 1 2 3 4 5 6 7 10 11 12 13 14)+
qed

section \<open>The deprecation notice\<close>

lemma detect_only_PY27:
  assumes py27: "PY27 env \<in> set (TargetVersion env)"
    and f: "f \<in> get_features_used env node" and leg: "legacy_only env f"
    and sub: "get_features_used env node \<subseteq> VERSION_TO_FEATURES env (PY27 env)"
  shows "detect_target_versions env node = {PY27 env}"
proof -
  have other: "v = PY27 env"
    if "v \<in> set (TargetVersion env)" "get_features_used env node \<subseteq> VERSION_TO_FEATURES env v"
    for v
  proof -
    from that f have "f \<in> VERSION_TO_FEATURES env v" by blast
    moreover from leg that(1) have "v = PY27 env \<or> f \<notin> VERSION_TO_FEATURES env v"
      by (simp add: legacy_only_def list_all_iff)
    ultimately show ?thesis by blast
  qed
  show ?thesis
    unfolding detect_target_versions_def Let_def
  proof (intro equalityI subsetI)
    fix v
    assume "v \<in> set (filter (\<lambda>version. get_features_used env node
                \<subseteq> VERSION_TO_FEATURES env version) (TargetVersion env))"
    then have "v \<in> set (TargetVersion env)"
      and "get_features_used env node \<subseteq> VERSION_TO_FEATURES env v" by simp_all
    then have "v = PY27 env" by (rule other)
    then show "v \<in> {PY27 env}" by simp
  next
    fix v
    assume "v \<in> {PY27 env}"
    then have "v = PY27 env" by simp
    then show "v \<in> set (filter (\<lambda>version. get_features_used env node
                \<subseteq> VERSION_TO_FEATURES env version) (TargetVersion env))"
      using py27 sub by simp
  qed
qed

lemma detect_not_only_PY27:
  assumes nl: "\<And>f. f \<in> get_features_used env node \<Longrightarrow> \<not> legacy_only env f"
    and cov: "shared_features_covered env"
  shows "detect_target_versions env node \<noteq> {PY27 env}"
proof
  assume eq: "detect_target_versions env node = {PY27 env}"
  then have "PY27 env \<in> detect_target_versions env node" by simp
  then have sub: "get_features_used env node \<subseteq> VERSION_TO_FEATURES env (PY27 env)"
    by (simp add: detect_target_versions_def Let_def)
  from cov obtain v where v: "v \<in> set (TargetVersion env)" "v \<noteq> PY27 env"
    and c: "\<And>f. f \<in> VERSION_TO_FEATURES env (PY27 env)
              \<Longrightarrow> legacy_only env f \<or> f \<in> VERSION_TO_FEATURES env v"
    unfolding shared_features_covered_def list_ex_iff by blast
  have "get_features_used env node \<subseteq> VERSION_TO_FEATURES env v"
    using sub nl c by blast
  with v(1) have "v \<in> detect_target_versions env node"
    by (simp add: detect_target_versions_def Let_def)
  with eq v(2) show False by simp
qed

text \<open>
  A tree that has a legacy-only construct and a newer one: the source \<open>print 10_000\<close> has a
  print statement and an underscore in a number. No version of the sample table supports
  both, so the detected set is empty, it differs from \<open>{PY27}\<close>, and \<open>format_str\<close> shows
  no notice although nothing is pinned.
\<close>

theorem deprecation_notice_counterexample:
  "lib2to3_parse sample_env (lstrip (''print 10_000'' @ [LF])) (target_versions sample_mode)
     = Inr (print_stmt_tree ''10_000'')
   \<and> target_versions sample_mode = {}
   \<and> PRINT_STMT \<in> get_features_used sample_env (print_stmt_tree ''10_000'')
   \<and> legacy_only sample_env PRINT_STMT
   \<and> format_str sample_env (''print 10_000'' @ [LF]) sample_mode
       = ([], Inr (''print 10_000'' @ [LF]))"
proof -
  have 1: "lib2to3_parse sample_env (lstrip (''print 10_000'' @ [LF])) (target_versions sample_mode)
     = Inr (print_stmt_tree ''10_000'')" by (simp add: sample_simps)
  have 2: "target_versions sample_mode = {}" by (simp add: sample_mode_def)
  have 3: "get_features_used sample_env (print_stmt_tree ''10_000'') = {NUMERIC_UNDERSCORES, PRINT_STMT}"
    by (simp add: sample_simps)
  have 4: "legacy_only sample_env PRINT_STMT"
    by (simp add: sample_env_def sample_features_def legacy_only_def)
  have 5: "format_str sample_env (''print 10_000'' @ [LF]) sample_mode
       = ([], Inr (''print 10_000'' @ [LF]))"
    by (simp add: sample_simps format_simps)
  from 3 have 6: "PRINT_STMT \<in> get_features_used sample_env (print_stmt_tree ''10_000'')" by simp
  show ?thesis by (intro conjI) (rule 1 2 4 5 6)+
qed

text \<open>
  Claim C3, amended. When the source parses and the call gets past \<open>get_future_imports\<close>,
  \<open>format_str\<close> shows the deprecation notice exactly when \<open>PY27\<close> is pinned or the resolved
  set of versions is \<open>{PY27}\<close>, and it returns the formatted text either way. So with
  nothing pinned, a legacy-only construct brings the notice when \<open>PY27\<close> supports every
  feature observed in the tree, and there is no notice when the tree has a feature that
  \<open>PY27\<close> does not support. No notice is shown when no legacy-only construct is observed
  and \<open>PY27\<close> is not pinned, for a table in which some other version supports the features
  of \<open>PY27\<close> that are not legacy-only.
\<close>

theorem deprecation_notice:
  assumes parse: "lib2to3_parse env (lstrip src_contents) (target_versions mode) = Inr src_node"
    and fi: "get_future_imports src_node = Inr future_imports"
  shows "fst (format_str env src_contents mode) =
           (if PY27 env \<in> target_versions mode \<or> versions env mode src_node = {PY27 env}
            then [DEPRECATION] else [])
         \<and> snd (format_str env src_contents mode)
             = Inr (concat (dst_contents env mode src_node future_imports))
         \<and> (target_versions mode = {} \<and> PY27 env \<in> set (TargetVersion env)
              \<and> f \<in> get_features_used env src_node \<and> legacy_only env f
              \<and> get_features_used env src_node \<subseteq> VERSION_TO_FEATURES env (PY27 env)
            \<longrightarrow> fst (format_str env src_contents mode) = [DEPRECATION])
         \<and> (target_versions mode = {}
              \<and> \<not> get_features_used env src_node \<subseteq> VERSION_TO_FEATURES env (PY27 env)
            \<longrightarrow> fst (format_str env src_contents mode) = [])
         \<and> (PY27 env \<notin> target_versions mode
              \<and> (\<forall>f \<in> get_features_used env src_node. \<not> legacy_only env f)
              \<and> shared_features_covered env
            \<longrightarrow> fst (format_str env src_contents mode) = [])"
proof -
  have panels: "fst (format_str env src_contents mode) =
           (if PY27 env \<in> target_versions mode \<or> versions env mode src_node = {PY27 env}
            then [DEPRECATION] else [])"
    and out: "snd (format_str env src_contents mode)
             = Inr (concat (dst_contents env mode src_node future_imports))"
    by (simp_all add: format_str_def parse fi)
  have a: "fst (format_str env src_contents mode) = [DEPRECATION]"
    if "target_versions mode = {} \<and> PY27 env \<in> set (TargetVersion env)
              \<and> f \<in> get_features_used env src_node \<and> legacy_only env f
              \<and> get_features_used env src_node \<subseteq> VERSION_TO_FEATURES env (PY27 env)"
  proof -
    from that have "detect_target_versions env src_node = {PY27 env}"
      by (intro detect_only_PY27 [of env f]) simp_all
    with that show ?thesis unfolding panels by (simp add: versions_def)
  qed
  have m: "fst (format_str env src_contents mode) = []"
    if "target_versions mode = {}
        \<and> \<not> get_features_used env src_node \<subseteq> VERSION_TO_FEATURES env (PY27 env)"
  proof -
    from that have "PY27 env \<notin> detect_target_versions env src_node"
      by (simp add: detect_target_versions_def Let_def)
    then have "detect_target_versions env src_node \<noteq> {PY27 env}" by blast
    with that show ?thesis unfolding panels by (simp add: versions_def)
  qed
  have b: "fst (format_str env src_contents mode) = []"
    if "PY27 env \<notin> target_versions mode
              \<and> (\<forall>f \<in> get_features_used env src_node. \<not> legacy_only env f)
              \<and> shared_features_covered env"
  proof -
    from that have "detect_target_versions env src_node \<noteq> {PY27 env}"
      by (intro detect_not_only_PY27) simp_all
    moreover from that have "target_versions mode \<noteq> {PY27 env}" by blast
    ultimately have "versions env mode src_node \<noteq> {PY27 env}"
      by (simp add: versions_def)
    with that show ?thesis unfolding panels by simp
  qed
  show ?thesis by (intro conjI impI) (rule panels out | erule a m b)+
qed

theorem deprecation_notice_witness:
  "lib2to3_parse sample_env (lstrip (''print 0123'' @ [LF])) (target_versions sample_mode)
     = Inr (print_stmt_tree ''0123'')
   \<and> get_future_imports (print_stmt_tree ''0123'') = Inr {}
   \<and> target_versions sample_mode = {}
   \<and> PY27 sample_env \<in> set (TargetVersion sample_env)
   \<and> PRINT_STMT \<in> get_features_used sample_env (print_stmt_tree ''0123'')
   \<and> legacy_only sample_env PRINT_STMT
   \<and> get_features_used sample_env (print_stmt_tree ''0123'')
       \<subseteq> VERSION_TO_FEATURES sample_env (PY27 sample_env)
   \<and> fst (format_str sample_env (''print 0123'' @ [LF]) sample_mode) = [DEPRECATION]
   \<and> snd (format_str sample_env (''print 0123'' @ [LF]) sample_mode)
       = Inr (''print 0123'' @ [LF])
   \<and> lib2to3_parse sample_env (lstrip (''pass'' @ [LF])) (target_versions sample_mode)
       = Inr (module [pass_stmt])
   \<and> get_future_imports (module [pass_stmt]) = Inr {}
   \<and> PY27 sample_env \<notin> target_versions sample_mode
   \<and> get_features_used sample_env (module [pass_stmt]) = {}
   \<and> shared_features_covered sample_env
   \<and> fst (format_str sample_env (''pass'' @ [LF]) sample_mode) = []"
proof -
  have 1: "lib2to3_parse sample_env (lstrip (''print 0123'' @ [LF])) (target_versions sample_mode)
     = Inr (print_stmt_tree ''0123'')" by (simp add: sample_simps)
  have 2: "get_future_imports (print_stmt_tree ''0123'') = Inr {}"
    by (simp add: sample_simps get_future_imports_def)
  have 3: "target_versions sample_mode = {}" by (simp add: sample_mode_def)
  have 4: "PY27 sample_env \<in> set (TargetVersion sample_env)" by (simp add: sample_env_def)
  have 5: "get_features_used sample_env (print_stmt_tree ''0123'') = {OCTAL_INT_LITERAL, PRINT_STMT}"
    by (simp add: sample_simps)
  have 6: "legacy_only sample_env PRINT_STMT"
    by (simp add: sample_env_def sample_features_def legacy_only_def)
  have 7: "get_features_used sample_env (print_stmt_tree ''0123'')
       \<subseteq> VERSION_TO_FEATURES sample_env (PY27 sample_env)"
    unfolding 5 by (simp add: sample_env_def sample_features_def)
  have 8: "snd (format_str sample_env (''print 0123'' @ [LF]) sample_mode)
       = Inr (''print 0123'' @ [LF])"
    by (simp add: sample_simps format_simps)
  have 9: "lib2to3_parse sample_env (lstrip (''pass'' @ [LF])) (target_versions sample_mode)
       = Inr (module [pass_stmt])" by (simp add: sample_simps)
  have 10: "get_future_imports (module [pass_stmt]) = Inr {}"
    by (simp add: sample_simps get_future_imports_def pass_stmt_def)
  have 11: "get_features_used sample_env (module [pass_stmt]) = {}"
    by (simp add: sample_simps pass_stmt_def)
  have 12: "shared_features_covered sample_env"
    by (simp add: shared_features_covered_def legacy_only_def sample_env_def sample_features_def)
  from 5 have 13: "PRINT_STMT \<in> get_features_used sample_env (print_stmt_tree ''0123'')" by simp
  from 1 2 3 4 6 7 8 13
    deprecation_notice [OF 1 2, of PRINT_STMT]
  have A: "fst (format_str sample_env (''print 0123'' @ [LF]) sample_mode) = [DEPRECATION]"
    by blast
  have 14: "\<forall>f \<in> get_features_used sample_env (module [pass_stmt]). \<not> legacy_only sample_env f"
    unfolding 11 by simp
  have 15: "PY27 sample_env \<notin> target_versions sample_mode" unfolding 3 by simp
  from 12 14 15 deprecation_notice [OF 9 10]
  have B: "fst (format_str sample_env (''pass'' @ [LF]) sample_mode) = []"
    by blast
  show ?thesis by (intro conjI) (rule 1 2 3 4 6 7 8 9 10 11 12 13 15 A B)+
qed

section \<open>Future imports\<close>

















section \<open>Parse failure and completion\<close>

lemma format_lines_append:
  "format_lines env mode fs ls elt after dst = dst @ format_lines env mode fs ls elt after []"
proof (induction ls arbitrary: elt after dst)
  case Nil
  then show ?case by simp
next
  case (Cons l ls)
  show ?case
    by (simp only: format_lines.simps Let_def append_Nil)
       (subst Cons.IH, subst (2) Cons.IH, simp)
qed

lemma format_lines_complete:
  "l \<in> set ls \<Longrightarrow> x \<in> set (transform_line env l mode fs) \<Longrightarrow>
     str_of_Line env x \<in> set (format_lines env mode fs ls elt after dst)"
proof (induction ls arbitrary: elt after dst)
  case Nil
  then show ?case by simp
next
  case (Cons c ls)
  show ?case
  proof (cases "l = c")
    case True
    with Cons.prems(2) show ?thesis
      by (simp only: format_lines.simps Let_def) (subst format_lines_append, simp)
  next
    case False
    with Cons.prems have "l \<in> set ls" by simp
    from Cons.IH [OF this Cons.prems(2)] show ?thesis
      by (simp only: format_lines.simps Let_def)
  qed
qed

text \<open>
  Claim C7. When the parser fails, \<open>format_str\<close> raises the error with the line and the
  column the parser reports, shows nothing and returns no text. When the source parses and
  its leading imports pass the assertions of \<open>get_future_imports\<close>, the call returns the
  join of \<open>dst_contents\<close>, which holds the text of every line that \<open>transform_line\<close>
  yields for every line of the generator. An exception leaves \<open>format_str\<close> only from the
  parser or from \<open>get_future_imports\<close>, and then no text is returned at all.
\<close>

theorem format_str_atomic:
  "(lib2to3_parse env (lstrip src_contents) (target_versions mode) = Inl (lineno, column)
      \<longrightarrow> format_str env src_contents mode = ([], Inl (ParseError lineno column)))
   \<and> (lib2to3_parse env (lstrip src_contents) (target_versions mode) = Inr src_node
        \<and> get_future_imports src_node = Inr future_imports
      \<longrightarrow> snd (format_str env src_contents mode)
            = Inr (concat (dst_contents env mode src_node future_imports))
          \<and> (\<forall>l \<in> set (LineGenerator_visit env mode
                          (remove_u_prefix env mode src_node future_imports)
                          (normalize_fmt_off env src_node)).
              \<forall>x \<in> set (transform_line env l mode (split_line_features env mode src_node)).
                str_of_Line env x \<in> set (dst_contents env mode src_node future_imports)))
   \<and> (snd (format_str env src_contents mode) = Inl e
      \<longrightarrow> fst (format_str env src_contents mode) = []
          \<and> ((\<exists>l c. lib2to3_parse env (lstrip src_contents) (target_versions mode) = Inl (l, c)
                     \<and> e = ParseError l c)
              \<or> (\<exists>t. lib2to3_parse env (lstrip src_contents) (target_versions mode) = Inr t
                     \<and> get_future_imports t = Inl e)))"
proof (intro conjI impI)
  assume "lib2to3_parse env (lstrip src_contents) (target_versions mode) = Inl (lineno, column)"
  then show "format_str env src_contents mode = ([], Inl (ParseError lineno column))"
    by (simp add: format_str_def)
next
  assume "lib2to3_parse env (lstrip src_contents) (target_versions mode) = Inr src_node
        \<and> get_future_imports src_node = Inr future_imports"
  then show "snd (format_str env src_contents mode)
            = Inr (concat (dst_contents env mode src_node future_imports))"
    by (simp add: format_str_def)
next
  show "\<forall>l \<in> set (LineGenerator_visit env mode
                          (remove_u_prefix env mode src_node future_imports)
                          (normalize_fmt_off env src_node)).
              \<forall>x \<in> set (transform_line env l mode (split_line_features env mode src_node)).
                str_of_Line env x \<in> set (dst_contents env mode src_node future_imports)"
    unfolding dst_contents_def by (intro ballI format_lines_complete)
next
  assume "snd (format_str env src_contents mode) = Inl e"
  then show "fst (format_str env src_contents mode) = []"
    by (auto simp: format_str_def split: sum.splits prod.splits)
next
  assume "snd (format_str env src_contents mode) = Inl e"
  then show "(\<exists>l c. lib2to3_parse env (lstrip src_contents) (target_versions mode) = Inl (l, c)
                     \<and> e = ParseError l c)
              \<or> (\<exists>t. lib2to3_parse env (lstrip src_contents) (target_versions mode) = Inr t
                     \<and> get_future_imports t = Inl e)"
    by (auto simp: format_str_def split: sum.splits prod.splits)
qed

theorem format_str_atomic_witness:
  "lib2to3_parse sample_env (lstrip (''pass('' @ [LF])) (target_versions sample_mode) = Inl (1, 0)
   \<and> format_str sample_env (''pass('' @ [LF]) sample_mode = ([], Inl (ParseError 1 0))
   \<and> lib2to3_parse sample_env (lstrip (''pass'' @ [LF])) (target_versions sample_mode)
       = Inr (module [pass_stmt])
   \<and> get_future_imports (module [pass_stmt]) = Inr {}
   \<and> snd (format_str sample_env (''pass'' @ [LF]) sample_mode) = Inr (''pass'' @ [LF])
   \<and> dst_contents sample_env sample_mode (module [pass_stmt]) {} = ['''', '''', ''pass'' @ [LF]]"
proof -
  have 1: "lib2to3_parse sample_env (lstrip (''pass('' @ [LF])) (target_versions sample_mode)
           = Inl (1, 0)" by (simp add: sample_simps)
  have 2: "lib2to3_parse sample_env (lstrip (''pass'' @ [LF])) (target_versions sample_mode)
       = Inr (module [pass_stmt])" by (simp add: sample_simps)
  have 3: "get_future_imports (module [pass_stmt]) = Inr {}"
    by (simp add: sample_simps get_future_imports_def pass_stmt_def)
  have 4: "dst_contents sample_env sample_mode (module [pass_stmt]) {} = ['''', '''', ''pass'' @ [LF]]"
    by (simp add: sample_simps format_simps pass_stmt_def)
  from 1 format_str_atomic [of sample_env "''pass('' @ [LF]" sample_mode 1 0]
  have 5: "format_str sample_env (''pass('' @ [LF]) sample_mode = ([], Inl (ParseError 1 0))"
    by blast
  from 2 3 format_str_atomic [of sample_env "''pass'' @ [LF]" sample_mode _ _ "module [pass_stmt]" "{}"]
  have "snd (format_str sample_env (''pass'' @ [LF]) sample_mode)
          = Inr (concat (dst_contents sample_env sample_mode (module [pass_stmt]) {}))"
    by blast
  then have 6: "snd (format_str sample_env (''pass'' @ [LF]) sample_mode) = Inr (''pass'' @ [LF])"
    unfolding 4 by simp
  show ?thesis by (intro conjI) (rule 1 2 3 4 5 6)+
qed

section \<open>Leading whitespace\<close>

lemma lstrip_idem: "lstrip (lstrip s) = lstrip s"
  unfolding lstrip_def by (induction s) auto

lemma lstrip_prefix: "list_all isspace w \<Longrightarrow> lstrip (w @ s) = lstrip s"
  unfolding lstrip_def by (induction w) auto

text \<open>
  Claim C9. \<open>format_str\<close> reads its input only through \<open>lstrip\<close>: the result for a text
  equals the result for the stripped text, and whitespace put in front of a text changes
  neither the messages, nor the exception, nor the text returned.
\<close>

theorem format_str_lstrip:
  "format_str env (lstrip src_contents) mode = format_str env src_contents mode
   \<and> (list_all isspace w
      \<longrightarrow> format_str env (w @ src_contents) mode = format_str env src_contents mode)"
  by (simp add: format_str_def lstrip_idem lstrip_prefix)

theorem format_str_lstrip_witness:
  "lstrip ([LF, LF] @ ''  pass'' @ [LF]) = ''pass'' @ [LF]
   \<and> list_all isspace ([LF, LF] @ ''  '')
   \<and> format_str sample_env ([LF, LF] @ ''  pass'' @ [LF]) sample_mode
       = format_str sample_env (''pass'' @ [LF]) sample_mode
   \<and> format_str sample_env (''pass'' @ [LF]) sample_mode = ([], Inr (''pass'' @ [LF]))"
proof -
  have 1: "lstrip ([LF, LF] @ ''  pass'' @ [LF]) = ''pass'' @ [LF]"
    by (simp add: lstrip_def isspace_def LF_def)
  have 2: "list_all isspace ([LF, LF] @ ''  '')" by (simp add: isspace_def LF_def)
  from 2 format_str_lstrip [of sample_env "''pass'' @ [LF]" sample_mode "[LF, LF] @ ''  ''"]
  have 3: "format_str sample_env ([LF, LF] @ ''  pass'' @ [LF]) sample_mode
       = format_str sample_env (''pass'' @ [LF]) sample_mode" by simp
  have 4: "format_str sample_env (''pass'' @ [LF]) sample_mode = ([], Inr (''pass'' @ [LF]))"
    by (simp add: sample_simps format_simps pass_stmt_def)
  show ?thesis by (intro conjI) (rule 1 2 3 4)+
qed

section \<open>The contract of decode_bytes\<close>

lemma universal_newlines_no_CR: "CR \<notin> set (universal_newlines s)"
  by (induction s rule: universal_newlines.induct) (auto simp: CR_def LF_def)

lemma detect_encoding_lines:
  assumes "detect_encoding lib src = Inr (encoding, lines)"
  shows "lines = [] \<and> (fst (readline src) = [] \<or> fst (readline src) = BOM_UTF8)
         \<or> lines \<noteq> [] \<and> lines ! 0 \<noteq> []
            \<and> (fst (readline src) = lines ! 0 \<or> fst (readline src) = BOM_UTF8 @ lines ! 0)"
proof -
  let ?l = "fst (readline src)"
  let ?first = "if take 3 ?l = BOM_UTF8 then drop 3 ?l else ?l"
  have bom: "?l = BOM_UTF8 @ drop 3 ?l" if "take 3 ?l = BOM_UTF8"
    using append_take_drop_id [of 3 ?l] that by simp
  show ?thesis
  proof (cases "?first = []")
    case True
    with assms have "lines = []"
      by (simp add: detect_encoding_def Let_def)
    moreover from True bom have "?l = [] \<or> ?l = BOM_UTF8"
      by (cases "take 3 ?l = BOM_UTF8") auto
    ultimately show ?thesis by simp
  next
    case False
    with assms have "lines \<noteq> [] \<and> lines ! 0 = ?first"
      by (auto simp: detect_encoding_def Let_def split: sum.splits option.splits if_splits)
    with False bom show ?thesis
      by (cases "take 3 ?l = BOM_UTF8") auto
  qed
qed

lemma crlf_after_bom:
  assumes "l \<noteq> []"
  shows "drop (length (BOM_UTF8 @ l) - 2) (BOM_UTF8 @ l) = [CR, LF]
         \<longleftrightarrow> drop (length l - 2) l = [CR, LF]"
proof (cases "length l \<ge> 2")
  case True
  then have "length (BOM_UTF8 @ l) - 2 = length BOM_UTF8 + (length l - 2)"
    by (simp add: BOM_UTF8_def)
  then have "drop (length (BOM_UTF8 @ l) - 2) (BOM_UTF8 @ l) = drop (length l - 2) l"
    by (simp only: drop_append) simp
  then show ?thesis by simp
next
  case False
  with assms have "length l = 1" by (cases l) (simp_all add: not_le)
  then obtain x where "l = [x]" by (auto simp: length_Suc_conv)
  then show ?thesis by (simp add: BOM_UTF8_def CR_def)
qed

lemma universal_newlines_id: "CR \<notin> set s \<Longrightarrow> universal_newlines s = s"
  by (induction s rule: universal_newlines.induct) auto

lemma readline_empty: "fst (readline src) = [] \<longleftrightarrow> src = []"
  by (auto simp: readline_def split: list.splits)

lemma readline_bom: "fst (readline src) = BOM_UTF8 \<longleftrightarrow> src = BOM_UTF8"
proof
  assume a: "fst (readline src) = BOM_UTF8"
  show "src = BOM_UTF8"
  proof (cases "dropWhile (\<lambda>b. b \<noteq> LF) src")
    case Nil
    with a show ?thesis by (simp add: readline_def)
  next
    case (Cons b rest)
    with a have "takeWhile (\<lambda>b. b \<noteq> LF) src @ [LF] = BOM_UTF8" by (simp add: readline_def)
    then have "last (takeWhile (\<lambda>b. b \<noteq> LF) src @ [LF]) = last BOM_UTF8" by simp
    then show ?thesis by (simp add: BOM_UTF8_def LF_def)
  qed
next
  assume "src = BOM_UTF8"
  then show "fst (readline src) = BOM_UTF8"
    by (simp add: readline_def BOM_UTF8_def LF_def)
qed

lemma detect_encoding_no_lines:
  assumes "detect_encoding lib src = Inr (encoding, lines)"
  shows "lines = [] \<longleftrightarrow> src = [] \<or> src = BOM_UTF8"
proof -
  let ?l = "fst (readline src)"
  let ?first = "if take 3 ?l = BOM_UTF8 then drop 3 ?l else ?l"
  have bom: "?l = BOM_UTF8 @ drop 3 ?l" if "take 3 ?l = BOM_UTF8"
    using append_take_drop_id [of 3 ?l] that by simp
  have "lines = [] \<longleftrightarrow> ?first = []"
    using assms
    by (auto simp: detect_encoding_def Let_def split: sum.splits option.splits if_splits)
  also have "?first = [] \<longleftrightarrow> ?l = [] \<or> ?l = BOM_UTF8"
  proof (cases "take 3 ?l = BOM_UTF8")
    case True
    then have "?l \<noteq> []" by (auto simp: BOM_UTF8_def)
    with True bom [OF True] show ?thesis by auto
  next
    case False
    then have "?l \<noteq> BOM_UTF8" by (auto simp: BOM_UTF8_def)
    with False show ?thesis by simp
  qed
  finally show ?thesis by (simp only: readline_empty readline_bom)
qed

text \<open>
  Claim C8. When \<open>decode_bytes\<close> returns, the newline is \<open>\r\n\<close> if the first line of the
  source ends with \<open>\r\n\<close> and \<open>\n\<close> otherwise; the encoding is the one \<open>detect_encoding\<close>
  found; the contents are the text that the codec of that encoding gives for the whole
  source, with the newlines translated (empty for an empty source and for a source that is
  only a byte order mark, which are not decoded), so they have no carriage return, and they
  are the decoded text itself when that has none. It returns whenever \<open>detect_encoding\<close> and
  the codec succeed.
\<close>

theorem decode_bytes_contract:
  "(decode_bytes lib src = Inr (contents, encoding, newline)
      \<longrightarrow> newline = (if first_line_ends_crlf src then [CR, LF] else [LF])
          \<and> CR \<notin> set contents
          \<and> (\<exists>lines. detect_encoding lib src = Inr (encoding, lines))
          \<and> (if src = [] \<or> src = BOM_UTF8 then contents = []
              else \<exists>text. decode lib encoding src = Inr text
                          \<and> contents = universal_newlines text
                          \<and> (if CR \<in> set text then True else contents = text)))
   \<and> (detect_encoding lib src = Inr (encoding, lines) \<and> decode lib encoding src = Inr text
      \<longrightarrow> (\<exists>found. decode_bytes lib src = Inr found))"
proof (intro conjI impI)
  assume a: "decode_bytes lib src = Inr (contents, encoding, newline)"
  then obtain lines where d: "detect_encoding lib src = Inr (encoding, lines)"
    by (auto simp: decode_bytes_def Let_def split: sum.splits if_splits)
  then show "\<exists>lines. detect_encoding lib src = Inr (encoding, lines)" by blast
  show "CR \<notin> set contents"
    using a d universal_newlines_no_CR
    by (auto simp: decode_bytes_def Let_def split: sum.splits if_splits)
  show "newline = (if first_line_ends_crlf src then [CR, LF] else [LF])"
  proof (cases "lines = []")
    case True
    with a d have n: "newline = [LF]" by (simp add: decode_bytes_def)
    from detect_encoding_lines [OF d] True
    have "fst (readline src) = [] \<or> fst (readline src) = BOM_UTF8" by simp
    then have "\<not> first_line_ends_crlf src"
      by (auto simp: first_line_ends_crlf_def BOM_UTF8_def CR_def)
    with n show ?thesis by simp
  next
    case False
    with a d have n: "newline = (if [CR, LF] = drop (length (lines ! 0) - 2) (lines ! 0)
                                 then [CR, LF] else [LF])"
      by (auto simp: decode_bytes_def Let_def split: sum.splits)
    from detect_encoding_lines [OF d] False
    have ne: "lines ! 0 \<noteq> []"
      and l: "fst (readline src) = lines ! 0 \<or> fst (readline src) = BOM_UTF8 @ lines ! 0"
      by simp_all
    have "first_line_ends_crlf src \<longleftrightarrow> drop (length (lines ! 0) - 2) (lines ! 0) = [CR, LF]"
      using l crlf_after_bom [OF ne] unfolding first_line_ends_crlf_def Let_def by metis
    with n show ?thesis by auto
  qed
  show "if src = [] \<or> src = BOM_UTF8 then contents = []
        else \<exists>text. decode lib encoding src = Inr text
                    \<and> contents = universal_newlines text
                    \<and> (if CR \<in> set text then True else contents = text)"
  proof (cases "lines = []")
    case True
    with a d have "contents = []" by (simp add: decode_bytes_def)
    moreover from True detect_encoding_no_lines [OF d] have "src = [] \<or> src = BOM_UTF8" by simp
    ultimately show ?thesis by simp
  next
    case False
    with detect_encoding_no_lines [OF d] have s: "\<not> (src = [] \<or> src = BOM_UTF8)" by simp
    from False a d obtain decoded where t: "decode lib encoding src = Inr decoded"
      and c: "contents = universal_newlines decoded"
      by (auto simp: decode_bytes_def Let_def split: sum.splits)
    have "contents = decoded" if "CR \<notin> set decoded"
      using c universal_newlines_id [OF that] by simp
    with s t c show ?thesis by auto
  qed
next
  assume "detect_encoding lib src = Inr (encoding, lines) \<and> decode lib encoding src = Inr text"
  then show "\<exists>found. decode_bytes lib src = Inr found"
    by (simp add: decode_bytes_def Let_def)
qed

text \<open>The definitions that evaluate the sample of the standard library.\<close>

lemmas stdlib_simps = sample_stdlib_def decode_bytes_def detect_encoding_def readline_def
  BOM_UTF8_def first_line_ends_crlf_def Let_def CR_def LF_def

theorem decode_bytes_contract_witness:
  "decode_bytes sample_stdlib (''a = 1'' @ [CR, LF] @ ''b = 2'' @ [CR, LF])
     = Inr (''a = 1'' @ [LF] @ ''b = 2'' @ [LF], ''utf-8'', [CR, LF])
   \<and> first_line_ends_crlf (''a = 1'' @ [CR, LF] @ ''b = 2'' @ [CR, LF])
   \<and> decode sample_stdlib ''utf-8'' (''a = 1'' @ [CR, LF] @ ''b = 2'' @ [CR, LF])
     = Inr (''a = 1'' @ [CR, LF] @ ''b = 2'' @ [CR, LF])
   \<and> universal_newlines (''a = 1'' @ [CR, LF] @ ''b = 2'' @ [CR, LF])
     = ''a = 1'' @ [LF] @ ''b = 2'' @ [LF]
   \<and> decode_bytes sample_stdlib (''a'' @ [CR] @ ''b'' @ [LF])
     = Inr (''a'' @ [LF] @ ''b'' @ [LF], ''utf-8'', [LF])
   \<and> detect_encoding sample_stdlib (''a'' @ [CR] @ ''b'' @ [LF])
     = Inr (''utf-8'', [''a'' @ [CR] @ ''b'' @ [LF]])
   \<and> CR \<notin> set (''a'' @ [LF] @ ''b'' @ [LF])"
proof -
  let ?s1 = "''a = 1'' @ [CR, LF] @ ''b = 2'' @ [CR, LF]"
  let ?s2 = "''a'' @ [CR] @ ''b'' @ [LF]"
  have 1: "decode_bytes sample_stdlib ?s1
     = Inr (''a = 1'' @ [LF] @ ''b = 2'' @ [LF], ''utf-8'', [CR, LF])"
    by (simp add: stdlib_simps)
  have 2: "decode_bytes sample_stdlib ?s2 = Inr (''a'' @ [LF] @ ''b'' @ [LF], ''utf-8'', [LF])"
    by (simp add: stdlib_simps)
  have 3: "detect_encoding sample_stdlib ?s2 = Inr (''utf-8'', [?s2])"
    by (simp add: stdlib_simps)
  have 4: "decode sample_stdlib ''utf-8'' ?s1 = Inr ?s1"
    by (simp add: stdlib_simps)
  have 5: "universal_newlines ?s1 = ''a = 1'' @ [LF] @ ''b = 2'' @ [LF]"
    by (simp add: CR_def LF_def)
  from 1 decode_bytes_contract [of sample_stdlib ?s1
      "''a = 1'' @ [LF] @ ''b = 2'' @ [LF]" "''utf-8''" "[CR, LF]"]
  have 6: "first_line_ends_crlf ?s1"
    by (auto split: if_splits)
  from 2 decode_bytes_contract [of sample_stdlib ?s2
      "''a'' @ [LF] @ ''b'' @ [LF]" "''utf-8''" "[LF]"]
  have 7: "CR \<notin> set (''a'' @ [LF] @ ''b'' @ [LF])"
    by blast
  show ?thesis by (intro conjI) (rule 1 2 3 4 5 6 7)+
qed

end
